theory Spec2Isabelle
  imports Complex_Main
begin

section \<open>Data model\<close>

text \<open>
  The image viewer is a React function component, \<open>ImageViewing\<close>, wrapped by
  \<open>EnhancedImageViewing\<close>. A JavaScript \<open>number\<close> that holds an index is an \<open>int\<close>.
  A callback of the embedding application is not run: each invocation is recorded as a
  \<open>call\<close>, and every step of the model returns the calls it made, in order.
\<close>

datatype ImageSource = ImageRequireSource nat | ImageURISource string

datatype PresentationStyle = FullScreen | PageSheet | FormSheet | OverFullScreen

datatype AnimationType = AnimationNone | AnimationSlide | AnimationFade

datatype HeaderFooterAnimation = Slide | Fade

datatype call = OnRequestClose | OnPress ImageSource | OnImageIndexChange int

text \<open>
  The props of \<open>ImageViewing\<close>. The required callback \<open>onRequestClose\<close> is always
  there and has no field. For the optional callbacks \<open>onPress\<close> (default: a function
  that does nothing) and \<open>onImageIndexChange\<close> the field says whether the application
  passed one. Another optional prop is an \<open>option\<close>. The props that are only handed on
  to \<open>ImageItem\<close> (\<open>keyExtractor\<close>, \<open>onLongPress\<close>, \<open>swipeToCloseEnabled\<close>,
  \<open>doubleTapToZoomEnabled\<close>, \<open>delayLongPress\<close>) and \<open>ContentWrapper\<close> are left out.
  A header or footer component is known by its name.
\<close>

record Props =
  images :: "ImageSource list"
  imageIndex :: int
  visible :: bool
  onPress :: bool
  onImageIndexChange :: bool
  presentationStyle :: "PresentationStyle option"
  animationType :: "AnimationType option"
  backgroundColor :: "string option"
  HeaderComponent :: "string option"
  FooterComponent :: "string option"
  headerAndFooterAnimation :: "HeaderFooterAnimation option"

definition DEFAULT_ANIMATION_TYPE :: AnimationType where
  "DEFAULT_ANIMATION_TYPE = AnimationFade"

definition DEFAULT_HEADER_FOOTER_ANIMATION :: HeaderFooterAnimation where
  "DEFAULT_HEADER_FOOTER_ANIMATION = Slide"

definition DEFAULT_BG_COLOR :: string where
  "DEFAULT_BG_COLOR = ''#000''"

text \<open>
  The list instance behind the \<open>imageList\<close> ref: whether it scrolls, and the
  \<open>scrollToIndex\<close> calls it has accepted, oldest first. The list is the host
  framework's \<open>VirtualizedList\<close>; the scroll that follows an accepted call is outside
  the repository.
\<close>

record ScrollToIndexParams =
  index :: int
  animated :: bool

record VirtualizedList =
  scrollEnabled :: bool
  scrollToIndexCalls :: "ScrollToIndexParams list"

text \<open>
  The state of one mounted \<open>ImageViewing\<close>: the ref (\<open>None\<close> is \<open>null\<close>), the
  state of \<open>useRequestClose\<close> (\<open>opacity\<close>, \<open>closing\<close>), of
  \<open>useImageIndexChange\<close> (\<open>currentImageIndex\<close>) and of \<open>useAnimatedComponents\<close>
  (\<open>barsVisible\<close>).
\<close>

record ViewerState =
  imageList :: "VirtualizedList option"
  opacity :: real
  closing :: bool
  currentImageIndex :: int
  barsVisible :: bool

text \<open>
  The three hooks are not among the sources. The values their state starts from are
  parameters of the model.
\<close>

record HookDefaults =
  initialOpacity :: real
  initialBarsVisible :: bool

text \<open>
  The errors a command of the handle can meet: JavaScript's \<open>TypeError\<close> for a method
  call on \<open>null\<close>, and the list's refusal of an index that is out of range, which names
  the requested index.
\<close>

datatype error = TypeError | ScrollToIndexOutOfRange int

section \<open>The imperative handle\<close>

text \<open>
  A \<open>scrollToIndex\<close> call on the ref's current value. On \<open>null\<close> JavaScript raises a
  \<open>TypeError\<close>. The host framework's list throws when the index is not in
  \<open>[0, getItemCount())\<close>, and accepts the call otherwise; \<open>itemCount\<close> is what
  \<open>getItemCount\<close> returns, and the component renders the list with
  \<open>getItemCount = () => images.length\<close>.
\<close>

definition scrollToIndex ::
  "nat \<Rightarrow> VirtualizedList option \<Rightarrow> ScrollToIndexParams \<Rightarrow> error + VirtualizedList" where
  "scrollToIndex itemCount r ps =
     (case r of
        None \<Rightarrow> Inl TypeError
      | Some l \<Rightarrow>
          if 0 \<le> index ps \<and> index ps < int itemCount
          then Inr (l\<lparr>scrollToIndexCalls := scrollToIndexCalls l @ [ps]\<rparr>)
          else Inl (ScrollToIndexOutOfRange (index ps)))"

text \<open>
  The two commands. They neither check nor clamp the index, and they do not catch what
  the list throws.
\<close>

definition scrollNext :: "Props \<Rightarrow> ViewerState \<Rightarrow> error + ViewerState" where
  "scrollNext p s =
     (if imageList s = None then Inr s
      else case scrollToIndex (length (images p)) (imageList s)
                  \<lparr>index = currentImageIndex s + 1, animated = True\<rparr> of
             Inl e \<Rightarrow> Inl e
           | Inr l \<Rightarrow> Inr (s\<lparr>imageList := Some l\<rparr>))"

definition scrollPrev :: "Props \<Rightarrow> ViewerState \<Rightarrow> error + ViewerState" where
  "scrollPrev p s =
     (if imageList s = None then Inr s
      else case scrollToIndex (length (images p)) (imageList s)
                  \<lparr>index = currentImageIndex s - 1, animated = True\<rparr> of
             Inl e \<Rightarrow> Inl e
           | Inr l \<Rightarrow> Inr (s\<lparr>imageList := Some l\<rparr>))"

text \<open>
  The handle object: its property names and methods. It is built again at every render,
  so a method reads the state of the render it is called in.
\<close>

definition useImperativeHandle ::
  "(string \<times> (Props \<Rightarrow> ViewerState \<Rightarrow> error + ViewerState)) list" where
  "useImperativeHandle = [(''scrollNext'', scrollNext), (''scrollPrev'', scrollPrev)]"

text \<open>The \<open>scrollToIndex\<close> calls the list behind the ref has accepted.\<close>

definition scrollRequests :: "ViewerState \<Rightarrow> ScrollToIndexParams list" where
  "scrollRequests s = (case imageList s of None \<Rightarrow> [] | Some l \<Rightarrow> scrollToIndexCalls l)"

section \<open>Header and footer animation\<close>

text \<open>
  The animated values that \<open>useAnimatedComponents\<close> returns are kept as names. A style
  object is the list of its properties.
\<close>

datatype AnimatedValue = headerTransform | footerTransform | barsOpacity

definition headerAndFooterAnimation_or_default :: "Props \<Rightarrow> HeaderFooterAnimation" where
  "headerAndFooterAnimation_or_default p =
     (case headerAndFooterAnimation p of
        None \<Rightarrow> DEFAULT_HEADER_FOOTER_ANIMATION
      | Some a \<Rightarrow> a)"

definition headerAnimation :: "Props \<Rightarrow> (string \<times> AnimatedValue) list" where
  "headerAnimation p =
     (if headerAndFooterAnimation_or_default p = Slide
      then [(''transform'', headerTransform)]
      else [(''opacity'', barsOpacity)])"

definition footerAnimation :: "Props \<Rightarrow> (string \<times> AnimatedValue) list" where
  "footerAnimation p =
     (if headerAndFooterAnimation_or_default p = Slide
      then [(''transform'', footerTransform)]
      else [(''opacity'', barsOpacity)])"

section \<open>Effects and event handlers\<close>

text \<open>The body of the effect that reports the index.\<close>

definition onImageIndexChangeEffect :: "Props \<Rightarrow> int \<Rightarrow> call list" where
  "onImageIndexChangeEffect p i = (if onImageIndexChange p then [OnImageIndexChange i] else [])"

text \<open>
  The effect depends on \<open>[currentImageIndex]\<close>: after a render it runs when the index
  differs from the one of the render before.
\<close>

definition useEffect_currentImageIndex :: "Props \<Rightarrow> int \<Rightarrow> int \<Rightarrow> call list" where
  "useEffect_currentImageIndex p old new =
     (if new \<noteq> old then onImageIndexChangeEffect p new else [])"

definition setNativeProps :: "bool \<Rightarrow> VirtualizedList \<Rightarrow> VirtualizedList" where
  "setNativeProps b l = l\<lparr>scrollEnabled := b\<rparr>"

text \<open>
  Modelled from the spec: \<open>hooks/useAnimatedComponents\<close> is not among the sources. The
  spec names its state, a boolean "bars visible" flag; \<open>setBarsVisibility\<close> stores its
  argument in the flag and \<open>toggleBarsVisible\<close> flips it.
\<close>

definition setBarsVisibility :: "bool \<Rightarrow> ViewerState \<Rightarrow> ViewerState" where
  "setBarsVisibility v s = s\<lparr>barsVisible := v\<rparr>"

definition toggleBarsVisible :: "ViewerState \<Rightarrow> ViewerState" where
  "toggleBarsVisible s = s\<lparr>barsVisible := \<not> barsVisible s\<rparr>"

text \<open>
  \<open>onZoom\<close>: the optional chaining on the ref skips \<open>setNativeProps\<close> when the ref is
  null.
\<close>

definition onZoom :: "bool \<Rightarrow> ViewerState \<Rightarrow> ViewerState" where
  "onZoom isScaled s =
     setBarsVisibility (\<not> isScaled)
       (s\<lparr>imageList := map_option (setNativeProps (\<not> isScaled)) (imageList s)\<rparr>)"

definition onPressHandler :: "Props \<Rightarrow> ImageSource \<Rightarrow> ViewerState \<Rightarrow> ViewerState \<times> call list" where
  "onPressHandler p src s = (toggleBarsVisible s, if onPress p then [OnPress src] else [])"

text \<open>
  Modelled from the spec: \<open>hooks/useImageIndexChange\<close> is not among the sources; the
  component calls it with the \<open>imageIndex\<close> prop (the starting index) and the screen,
  and hands its \<open>onScroll\<close> to the list as \<open>onMomentumScrollEnd\<close>. The spec says that
  scroll-settle callbacks update the current index, that the index is bounded to
  \<open>[0, imageCount)\<close> and that it is clamped at the last image. The settle event is taken
  as the page the list came to rest on.
\<close>

definition onScroll :: "nat \<Rightarrow> int \<Rightarrow> ViewerState \<Rightarrow> ViewerState" where
  "onScroll imageCount page s =
     s\<lparr>currentImageIndex := max 0 (min page (int imageCount - 1))\<rparr>"

text \<open>
  Modelled from the spec: the state of \<open>hooks/useImageIndexChange\<close>, which is not among
  the sources, at the first render. The spec says that the viewer is given a list of image
  sources and a starting index; the component passes its \<open>imageIndex\<close> prop to the hook
  and takes the current index from it. The current index starts as the index the hook is
  given.
\<close>

definition useImageIndexChange_initial :: "int \<Rightarrow> int" where
  "useImageIndexChange_initial startIndex = startIndex"

text \<open>
  Modelled from the spec: \<open>hooks/useRequestClose\<close> is not among the sources; the
  component takes from it the \<open>opacity\<close> of its container and the handler
  \<open>onRequestCloseEnhanced\<close>. The spec says that the close action is deferred until a
  fade animation completes, and that the opacity is a scalar in \<open>[0, 1]\<close>. A close
  request starts the fade; when the fade completes the opacity has reached 0 and the
  application's \<open>onRequestClose\<close> is called, once.
\<close>

definition onRequestCloseEnhanced :: "ViewerState \<Rightarrow> ViewerState" where
  "onRequestCloseEnhanced s = s\<lparr>closing := True\<rparr>"

definition onFadeComplete :: "ViewerState \<Rightarrow> ViewerState \<times> call list" where
  "onFadeComplete s =
     (if closing s then (s\<lparr>closing := False, opacity := 0\<rparr>, [OnRequestClose])
      else (s, []))"

section \<open>Rendering\<close>

datatype HeaderElement = CustomHeader string int | ImageDefaultHeader

text \<open>
  What \<open>ImageViewing\<close> returns when it is visible: the props of the \<open>Modal\<close>, the style
  of the container, the header, the props of the list that depend on the component's
  props, and the footer (its style, component and \<open>imageIndex\<close> prop) when there is one.
\<close>

record Modal =
  transparent :: bool
  modalVisible :: bool
  modalPresentationStyle :: "PresentationStyle option"
  modalAnimationType :: AnimationType
  containerOpacity :: real
  containerBackgroundColor :: string
  headerStyle :: "(string \<times> AnimatedValue) list"
  headerElement :: HeaderElement
  initialScrollIndex :: int
  itemCount :: nat
  footer :: "((string \<times> AnimatedValue) list \<times> string \<times> int) option"

definition render :: "Props \<Rightarrow> ViewerState \<Rightarrow> Modal option" where
  "render p s =
     (if \<not> visible p then None
      else Some
        \<lparr>transparent = (presentationStyle p = Some OverFullScreen),
         modalVisible = visible p,
         modalPresentationStyle = presentationStyle p,
         modalAnimationType =
           (case animationType p of None \<Rightarrow> DEFAULT_ANIMATION_TYPE | Some a \<Rightarrow> a),
         containerOpacity = opacity s,
         containerBackgroundColor =
           (case backgroundColor p of None \<Rightarrow> DEFAULT_BG_COLOR | Some c \<Rightarrow> c),
         headerStyle = headerAnimation p,
         headerElement =
           (case HeaderComponent p of
              Some c \<Rightarrow> CustomHeader c (currentImageIndex s)
            | None \<Rightarrow> ImageDefaultHeader),
         initialScrollIndex = imageIndex p,
         itemCount = length (images p),
         footer =
           (case FooterComponent p of
              Some c \<Rightarrow> Some (footerAnimation p, c, currentImageIndex s)
            | None \<Rightarrow> None)\<rparr>)"

section \<open>Mounting, events and re-rendering\<close>

text \<open>A list that has just been mounted: it scrolls and has received no call.\<close>

definition newList :: VirtualizedList where
  "newList = \<lparr>scrollEnabled = True, scrollToIndexCalls = []\<rparr>"

text \<open>
  The first render. The hooks start from their initial values, the index hook from the
  \<open>imageIndex\<close> prop it is called with. The list is rendered, and the ref set, only when
  the component is visible. The index effect runs after the first render, with the
  current index of that render.
\<close>

definition mount :: "HookDefaults \<Rightarrow> Props \<Rightarrow> ViewerState \<times> call list" where
  "mount h p =
     (\<lparr>imageList = (if visible p then Some newList else None),
       opacity = initialOpacity h,
       closing = False,
       currentImageIndex = useImageIndexChange_initial (imageIndex p),
       barsVisible = initialBarsVisible h\<rparr>,
      onImageIndexChangeEffect p (useImageIndexChange_initial (imageIndex p)))"

text \<open>
  The events a mounted viewer reacts to: the application calling a method of the handle,
  the list reporting the page a scroll settled on, an image item reporting a zoom change
  or a press, a close request (from the modal, the default header or an image item: all
  three are given \<open>onRequestCloseEnhanced\<close>), and the end of the close fade.
\<close>

datatype event =
    ScrollNext
  | ScrollPrev
  | MomentumScrollEnd int
  | Zoom bool
  | Press ImageSource
  | RequestClose
  | FadeComplete

text \<open>
  One event: the handler runs, the component renders again, and the index effect runs if
  the index changed. An error raised by a method of the handle goes to the caller and
  leaves the state as it was.
\<close>

fun handle :: "Props \<Rightarrow> ViewerState \<Rightarrow> event \<Rightarrow> ViewerState \<times> call list" where
  "handle p s ScrollNext = (case scrollNext p s of Inl e \<Rightarrow> (s, []) | Inr s' \<Rightarrow> (s', []))"
| "handle p s ScrollPrev = (case scrollPrev p s of Inl e \<Rightarrow> (s, []) | Inr s' \<Rightarrow> (s', []))"
| "handle p s (MomentumScrollEnd page) = (onScroll (length (images p)) page s, [])"
| "handle p s (Zoom isScaled) = (onZoom isScaled s, [])"
| "handle p s (Press src) = onPressHandler p src s"
| "handle p s RequestClose = (onRequestCloseEnhanced s, [])"
| "handle p s FadeComplete = onFadeComplete s"

definition step :: "Props \<Rightarrow> ViewerState \<Rightarrow> event \<Rightarrow> ViewerState \<times> call list" where
  "step p s e =
     (case handle p s e of
        (s', cs) \<Rightarrow>
          (s', cs @ useEffect_currentImageIndex p (currentImageIndex s) (currentImageIndex s')))"

fun run :: "Props \<Rightarrow> ViewerState \<Rightarrow> event list \<Rightarrow> ViewerState \<times> call list" where
  "run p s [] = (s, [])"
| "run p s (e # es) =
     (case step p s e of
        (s', cs) \<Rightarrow> (case run p s' es of (s'', cs') \<Rightarrow> (s'', cs @ cs')))"

text \<open>
  \<open>EnhancedImageViewing\<close> renders \<open>ImageViewing\<close> with \<open>key = props.imageIndex\<close>.
  When the application passes new props \<open>p'\<close> to a viewer that was rendered with \<open>p\<close>,
  React keeps the instance if the key is the same and replaces it by a newly mounted one
  if the key differs. A kept instance keeps its hook state; its list is mounted, kept or
  unmounted as \<open>visible\<close> says, and the index effect does not run, since the index did
  not change.
\<close>

definition EnhancedImageViewing ::
  "HookDefaults \<Rightarrow> Props \<Rightarrow> Props \<Rightarrow> ViewerState \<Rightarrow> ViewerState \<times> call list" where
  "EnhancedImageViewing h p p' s =
     (if imageIndex p' \<noteq> imageIndex p then mount h p'
      else (s\<lparr>imageList :=
                (if visible p'
                 then (case imageList s of None \<Rightarrow> Some newList | Some l \<Rightarrow> Some l)
                 else None)\<rparr>, []))"

text \<open>
  What happens to a viewer between its mount and its unmount: an event, or the
  application rendering it with new props. The viewer is followed as the pair of its
  current props and its state.
\<close>

datatype action = Event event | Update Props

fun act :: "HookDefaults \<Rightarrow> Props \<times> ViewerState \<Rightarrow> action \<Rightarrow> Props \<times> ViewerState" where
  "act h (p, s) (Event e) = (p, fst (step p s e))"
| "act h (p, s) (Update p') = (p', fst (EnhancedImageViewing h p p' s))"

definition viewer :: "HookDefaults \<Rightarrow> Props \<Rightarrow> action list \<Rightarrow> Props \<times> ViewerState" where
  "viewer h p as = foldl (act h) (p, fst (mount h p)) as"

section \<open>Observations on states and traces\<close>

text \<open>
  The outcome \<open>r\<close> of a command called in state \<open>s\<close> shows a \<open>scrollToIndex\<close> call
  on the list with index \<open>i\<close>, animated: either the list accepted it, and it is the one
  call the list has accepted since, or the list refused this index.
\<close>

definition requestsScrollTo :: "ViewerState \<Rightarrow> error + ViewerState \<Rightarrow> int \<Rightarrow> bool" where
  "requestsScrollTo s r i =
     (case r of
        Inl e \<Rightarrow> e = ScrollToIndexOutOfRange i
      | Inr s' \<Rightarrow> scrollRequests s' = scrollRequests s @ [\<lparr>index = i, animated = True\<rparr>])"

text \<open>The \<open>imageIndex\<close> prop is the index of one of the images.\<close>

definition props_in_bounds :: "Props \<Rightarrow> bool" where
  "props_in_bounds p = (0 \<le> imageIndex p \<and> imageIndex p < int (length (images p)))"

text \<open>
  The props updates of a sequence of actions keep the index among the images: an update
  that changes \<open>imageIndex\<close> brings an \<open>imageIndex\<close> that is the index of one of its
  images, and an update that keeps \<open>imageIndex\<close> brings more images than the current
  index.
\<close>

fun admissible :: "HookDefaults \<Rightarrow> Props \<times> ViewerState \<Rightarrow> action list \<Rightarrow> bool" where
  "admissible h (p, s) [] = True"
| "admissible h (p, s) (Event e # as) = admissible h (act h (p, s) (Event e)) as"
| "admissible h (p, s) (Update p' # as) =
     ((if imageIndex p' \<noteq> imageIndex p then props_in_bounds p'
       else currentImageIndex s < int (length (images p')))
      \<and> admissible h (act h (p, s) (Update p')) as)"

text \<open>The current index is the index of one of the images.\<close>

definition index_in_bounds :: "Props \<Rightarrow> ViewerState \<Rightarrow> bool" where
  "index_in_bounds p s =
     (0 \<le> currentImageIndex s \<and> currentImageIndex s < int (length (images p)))"

text \<open>
  How often the application's \<open>onRequestClose\<close> was called, and how many close fades
  came to their end.
\<close>

definition closeCalls :: "call list \<Rightarrow> nat" where
  "closeCalls cs = length (filter (\<lambda>c. c = OnRequestClose) cs)"

definition fadesCompleted :: "event list \<Rightarrow> nat" where
  "fadesCompleted es = length (filter (\<lambda>e. e = FadeComplete) es)"

text \<open>
  The scaled flag after a sequence of events: the one of the last zoom report, or the
  flag from before if there was none.
\<close>

fun scaledAfter :: "bool \<Rightarrow> event list \<Rightarrow> bool" where
  "scaledAfter b [] = b"
| "scaledAfter b (Zoom isScaled # es) = scaledAfter isScaled es"
| "scaledAfter b (e # es) = scaledAfter b es"

text \<open>Whether the mounted list scrolls; \<open>None\<close> when no list is mounted.\<close>

definition listScrollEnabled :: "ViewerState \<Rightarrow> bool option" where
  "listScrollEnabled s = map_option scrollEnabled (imageList s)"

section \<open>Example inputs\<close>

definition exampleImages :: "ImageSource list" where
  "exampleImages = [ImageURISource ''a.png'', ImageURISource ''b.png'', ImageRequireSource 7]"

definition exampleProps :: Props where
  "exampleProps =
     \<lparr>images = exampleImages, imageIndex = 1, visible = True, onPress = True,
      onImageIndexChange = True, presentationStyle = None, animationType = None,
      backgroundColor = None, HeaderComponent = None, FooterComponent = Some ''Footer'',
      headerAndFooterAnimation = None\<rparr>"

definition exampleDefaults :: HookDefaults where
  "exampleDefaults = \<lparr>initialOpacity = 1, initialBarsVisible = True\<rparr>"

text \<open>The viewer just mounted with the example props, visible and hidden.\<close>

definition exampleState :: ViewerState where
  "exampleState = fst (mount exampleDefaults exampleProps)"

definition hiddenState :: ViewerState where
  "hiddenState = fst (mount exampleDefaults (exampleProps\<lparr>visible := False\<rparr>))"

text \<open>
  Props whose \<open>imageIndex\<close> is one past the last image, and props with the third image
  taken away.
\<close>

definition outOfRangeProps :: Props where
  "outOfRangeProps = exampleProps\<lparr>imageIndex := 3\<rparr>"

definition shorterProps :: Props where
  "shorterProps = exampleProps\<lparr>images := [ImageURISource ''a.png'', ImageURISource ''b.png'']\<rparr>"

text \<open>The visible viewer after it was scrolled, zoomed and closed.\<close>

definition usedState :: ViewerState where
  "usedState = fst (run exampleProps exampleState
      [MomentumScrollEnd 2, Zoom True, RequestClose, FadeComplete, ScrollPrev])"

section \<open>Basic facts\<close>

lemma hiddenState_simp:
  "hiddenState =
     \<lparr>imageList = None, opacity = 1, closing = False, currentImageIndex = 1,
      barsVisible = True\<rparr>"
  by (simp add: hiddenState_def mount_def useImageIndexChange_initial_def exampleProps_def
      exampleDefaults_def)

lemma exampleState_simp:
  "exampleState =
     \<lparr>imageList = Some newList, opacity = 1, closing = False, currentImageIndex = 1,
      barsVisible = True\<rparr>"
  by (simp add: exampleState_def mount_def useImageIndexChange_initial_def exampleProps_def
      exampleDefaults_def)

lemma usedState_simp:
  "usedState =
     \<lparr>imageList = Some \<lparr>scrollEnabled = False,
        scrollToIndexCalls = [\<lparr>index = 1, animated = True\<rparr>]\<rparr>,
      opacity = 0, closing = False, currentImageIndex = 2, barsVisible = False\<rparr>"
  by (simp add: usedState_def exampleState_simp step_def onScroll_def onZoom_def
      setBarsVisibility_def setNativeProps_def onRequestCloseEnhanced_def onFadeComplete_def
      scrollPrev_def scrollToIndex_def newList_def exampleProps_def exampleImages_def)

lemma fst_step: "fst (step p s e) = fst (handle p s e)"
  by (simp add: step_def split: prod.splits)

lemma snd_step:
  "snd (step p s e) =
     snd (handle p s e) @
     useEffect_currentImageIndex p (currentImageIndex s) (currentImageIndex (fst (handle p s e)))"
  by (simp add: step_def split: prod.splits)

lemma fst_run_Cons: "fst (run p s (e # es)) = fst (run p (fst (step p s e)) es)"
  by (simp split: prod.splits)

lemma snd_run_Cons:
  "snd (run p s (e # es)) = snd (step p s e) @ snd (run p (fst (step p s e)) es)"
  by (simp split: prod.splits)

text \<open>Only a scroll that settles changes the current index.\<close>

lemma handle_index:
  "currentImageIndex (fst (handle p s e)) =
     (case e of
        MomentumScrollEnd page \<Rightarrow> max 0 (min page (int (length (images p)) - 1))
      | _ \<Rightarrow> currentImageIndex s)"
  by (cases e)
    (auto simp: scrollNext_def scrollPrev_def scrollToIndex_def onScroll_def onZoom_def
      setBarsVisibility_def onPressHandler_def toggleBarsVisible_def onRequestCloseEnhanced_def
      onFadeComplete_def split: option.splits sum.splits if_splits)

lemma step_index:
  "currentImageIndex (fst (step p s e)) =
     (case e of
        MomentumScrollEnd page \<Rightarrow> max 0 (min page (int (length (images p)) - 1))
      | _ \<Rightarrow> currentImageIndex s)"
  unfolding fst_step by (rule handle_index)

lemma step_in_bounds: "index_in_bounds p s \<Longrightarrow> index_in_bounds p (fst (step p s e))"
  by (auto simp: index_in_bounds_def step_index split: event.splits)

lemma run_in_bounds: "index_in_bounds p s \<Longrightarrow> index_in_bounds p (fst (run p s es))"
proof (induction es arbitrary: s)
  case Nil
  then show ?case by simp
next
  case (Cons e es)
  have "index_in_bounds p (fst (step p s e))" using Cons.prems by (rule step_in_bounds)
  then have "index_in_bounds p (fst (run p (fst (step p s e)) es))" by (rule Cons.IH)
  then show ?case by (simp only: fst_run_Cons)
qed

text \<open>
  The mount puts the current index among the images exactly when the \<open>imageIndex\<close> prop
  is; a props update that changes \<open>imageIndex\<close> does so exactly when the new
  \<open>imageIndex\<close> is, and one that keeps it exactly when the current index is among the
  new images.
\<close>

lemma mount_in_bounds: "index_in_bounds p (fst (mount h p)) = props_in_bounds p"
  by (simp add: index_in_bounds_def props_in_bounds_def mount_def
      useImageIndexChange_initial_def)

lemma update_in_bounds:
  "index_in_bounds p' (fst (EnhancedImageViewing h p p' s)) =
     (if imageIndex p' \<noteq> imageIndex p then props_in_bounds p'
      else 0 \<le> currentImageIndex s \<and> currentImageIndex s < int (length (images p')))"
  by (simp add: EnhancedImageViewing_def mount_in_bounds) (simp add: index_in_bounds_def)

lemma admissible_in_bounds:
  "index_in_bounds p s \<Longrightarrow> admissible h (p, s) as \<Longrightarrow>
   index_in_bounds (fst (foldl (act h) (p, s) as)) (snd (foldl (act h) (p, s) as))"
proof (induction as arbitrary: p s)
  case Nil
  then show ?case by simp
next
  case (Cons a as)
  show ?case
  proof (cases a)
    case (Event e)
    have "index_in_bounds p (fst (step p s e))" using Cons.prems(1) by (rule step_in_bounds)
    moreover have "admissible h (p, fst (step p s e)) as"
      using Cons.prems(2) Event by simp
    ultimately show ?thesis using Cons.IH [of p "fst (step p s e)"] Event by simp
  next
    case (Update p')
    have c: "if imageIndex p' \<noteq> imageIndex p then props_in_bounds p'
             else currentImageIndex s < int (length (images p'))"
      using Cons.prems(2) Update by simp
    have "index_in_bounds p' (fst (EnhancedImageViewing h p p' s))"
      unfolding update_in_bounds using c Cons.prems(1)
      by (simp add: index_in_bounds_def split: if_splits)
    moreover have "admissible h (p', fst (EnhancedImageViewing h p p' s)) as"
      using Cons.prems(2) Update by simp
    ultimately show ?thesis
      using Cons.IH [of p' "fst (EnhancedImageViewing h p p' s)"] Update by simp
  qed
qed

text \<open>Only the end of a fade calls \<open>onRequestClose\<close>, and at most once.\<close>

lemma closeCalls_append: "closeCalls (cs @ ds) = closeCalls cs + closeCalls ds"
  by (simp add: closeCalls_def)

lemma closeCalls_effect: "closeCalls (useEffect_currentImageIndex p i j) = 0"
  by (simp add: closeCalls_def useEffect_currentImageIndex_def onImageIndexChangeEffect_def)

lemma closeCalls_handle: "closeCalls (snd (handle p s e)) \<le> fadesCompleted [e]"
  by (cases e)
    (auto simp: closeCalls_def fadesCompleted_def onPressHandler_def onFadeComplete_def
      split: sum.splits)

lemma closeCalls_step: "closeCalls (snd (step p s e)) \<le> fadesCompleted [e]"
  using closeCalls_handle [of p s e]
  by (simp only: snd_step closeCalls_append closeCalls_effect add_0_right)

lemma fadesCompleted_Cons: "fadesCompleted (e # es) = fadesCompleted [e] + fadesCompleted es"
  by (simp add: fadesCompleted_def)

lemma closeCalls_run: "closeCalls (snd (run p s es)) \<le> fadesCompleted es"
proof (induction es arbitrary: s)
  case Nil
  show ?case by (simp add: closeCalls_def)
next
  case (Cons e es)
  have "closeCalls (snd (run p s (e # es))) =
          closeCalls (snd (step p s e)) + closeCalls (snd (run p (fst (step p s e)) es))"
    by (simp only: snd_run_Cons closeCalls_append)
  also have "\<dots> \<le> fadesCompleted [e] + fadesCompleted es"
    using closeCalls_step [of p s e] Cons.IH [of "fst (step p s e)"] by linarith
  finally show ?case by (simp only: fadesCompleted_Cons [of e es])
qed

text \<open>Only a zoom report changes whether the list scrolls.\<close>

lemma step_scrollEnabled:
  "listScrollEnabled s = Some b \<Longrightarrow>
   listScrollEnabled (fst (step p s e)) = Some (\<not> scaledAfter (\<not> b) [e])"
  by (cases e)
    (auto simp: listScrollEnabled_def fst_step scrollNext_def scrollPrev_def scrollToIndex_def
      onScroll_def onZoom_def setBarsVisibility_def setNativeProps_def onPressHandler_def
      toggleBarsVisible_def onRequestCloseEnhanced_def onFadeComplete_def
      split: option.splits if_splits)

lemma scaledAfter_Cons: "scaledAfter b (e # es) = scaledAfter (scaledAfter b [e]) es"
  by (cases e) simp_all

lemma run_scrollEnabled:
  "listScrollEnabled s = Some b \<Longrightarrow>
   listScrollEnabled (fst (run p s es)) = Some (\<not> scaledAfter (\<not> b) es)"
proof (induction es arbitrary: s b)
  case Nil
  then show ?case by simp
next
  case (Cons e es)
  have "listScrollEnabled (fst (step p s e)) = Some (\<not> scaledAfter (\<not> b) [e])"
    using Cons.prems by (rule step_scrollEnabled)
  then have "listScrollEnabled (fst (run p (fst (step p s e)) es)) =
      Some (\<not> scaledAfter (\<not> \<not> scaledAfter (\<not> b) [e]) es)"
    by (rule Cons.IH)
  then show ?case
    by (simp only: fst_run_Cons not_not scaledAfter_Cons [of "\<not> b" e es])
qed

section \<open>The claims\<close>

subsection \<open>C1: bounds of the current index\<close>

text \<open>
  C1 says that in every state of the component the current index is in
  \<open>[0, images.length)\<close>. The component never compares an index with \<open>images.length\<close>,
  so the claim fails in three ways. With no image the range is empty, whatever the index
  is. The index starts from the \<open>imageIndex\<close> prop as it is: with three images and
  \<open>imageIndex = 3\<close>, or \<open>imageIndex = -1\<close>, it is out of range right after the
  mount. And new props with the
  same \<open>imageIndex\<close> keep the viewer and its index: after a scroll has settled on the
  third of three images, props with only the first two images leave the index at 2 of 2,
  although the \<open>imageIndex\<close> prop, 1, is in range before and after.
\<close>

theorem current_index_out_of_bounds:
  "\<not> index_in_bounds (exampleProps\<lparr>images := [], imageIndex := 0\<rparr>)
        (fst (mount exampleDefaults (exampleProps\<lparr>images := [], imageIndex := 0\<rparr>)))
   \<and> \<not> index_in_bounds outOfRangeProps (fst (mount exampleDefaults outOfRangeProps))
   \<and> \<not> index_in_bounds (exampleProps\<lparr>imageIndex := - 1\<rparr>)
        (fst (mount exampleDefaults (exampleProps\<lparr>imageIndex := - 1\<rparr>)))
   \<and> props_in_bounds exampleProps
   \<and> props_in_bounds shorterProps
   \<and> fst (viewer exampleDefaults exampleProps
          [Event (MomentumScrollEnd 2), Update shorterProps]) = shorterProps
   \<and> \<not> index_in_bounds shorterProps
        (snd (viewer exampleDefaults exampleProps
           [Event (MomentumScrollEnd 2), Update shorterProps]))"
  by (simp add: index_in_bounds_def props_in_bounds_def viewer_def mount_def
      useImageIndexChange_initial_def EnhancedImageViewing_def step_index
      outOfRangeProps_def shorterProps_def exampleProps_def exampleImages_def)

text \<open>
  C1, amended: if the \<open>imageIndex\<close> prop is in \<open>[0, images.length)\<close> at the mount and
  in every props update that changes it, and every props update that keeps \<open>imageIndex\<close>
  brings more images than the current index, then the current index is in
  \<open>[0, images.length)\<close> of the current props right after the mount and after every
  sequence of events and props updates; the events include \<open>scrollNext\<close>,
  \<open>scrollPrev\<close> and scrolls that settle on any page.
\<close>

theorem current_index_in_bounds:
  assumes "props_in_bounds p" and "admissible h (p, fst (mount h p)) as"
  shows "index_in_bounds (fst (viewer h p as)) (snd (viewer h p as))"
proof -
  have "index_in_bounds p (fst (mount h p))"
    using assms(1) by (simp add: mount_in_bounds)
  then show ?thesis
    unfolding viewer_def using assms(2) by (rule admissible_in_bounds)
qed

theorem current_index_in_bounds_witness:
  "props_in_bounds exampleProps
   \<and> admissible exampleDefaults (exampleProps, fst (mount exampleDefaults exampleProps))
       [Event ScrollNext, Event (MomentumScrollEnd 3), Update (exampleProps\<lparr>visible := False\<rparr>),
        Event ScrollPrev, Update (exampleProps\<lparr>imageIndex := 0\<rparr>), Event (MomentumScrollEnd (- 1))]
   \<and> index_in_bounds
       (fst (viewer exampleDefaults exampleProps
         [Event ScrollNext, Event (MomentumScrollEnd 3), Update (exampleProps\<lparr>visible := False\<rparr>),
          Event ScrollPrev, Update (exampleProps\<lparr>imageIndex := 0\<rparr>),
          Event (MomentumScrollEnd (- 1))]))
       (snd (viewer exampleDefaults exampleProps
         [Event ScrollNext, Event (MomentumScrollEnd 3), Update (exampleProps\<lparr>visible := False\<rparr>),
          Event ScrollPrev, Update (exampleProps\<lparr>imageIndex := 0\<rparr>),
          Event (MomentumScrollEnd (- 1))]))"
proof -
  have a: "props_in_bounds exampleProps"
    by (simp add: props_in_bounds_def exampleProps_def exampleImages_def)
  have b: "admissible exampleDefaults (exampleProps, fst (mount exampleDefaults exampleProps))
       [Event ScrollNext, Event (MomentumScrollEnd 3), Update (exampleProps\<lparr>visible := False\<rparr>),
        Event ScrollPrev, Update (exampleProps\<lparr>imageIndex := 0\<rparr>), Event (MomentumScrollEnd (- 1))]"
    by (simp add: props_in_bounds_def step_index EnhancedImageViewing_def mount_def
        useImageIndexChange_initial_def exampleProps_def exampleImages_def)
  show ?thesis using a b current_index_in_bounds [OF a b] by blast
qed

subsection \<open>C2: the two scroll commands\<close>

text \<open>
  C2 says that for every current index \<open>i\<close>, \<open>scrollNext\<close> requests a scroll to
  \<open>i + 1\<close>. Both commands return before the call when the list ref is null, as it is
  while the viewer is not visible: there \<open>scrollNext\<close> calls nothing.
\<close>

theorem scroll_next_without_list:
  "\<not> requestsScrollTo hiddenState (scrollNext (exampleProps\<lparr>visible := False\<rparr>) hiddenState)
        (currentImageIndex hiddenState + 1)"
  by (simp add: hiddenState_simp requestsScrollTo_def scrollNext_def scrollRequests_def)

text \<open>
  C2, amended: the handle has exactly the two commands \<open>scrollNext\<close> and \<open>scrollPrev\<close>,
  and whenever the list ref is not null, for every current index \<open>i\<close>, \<open>scrollNext\<close>
  calls the list's \<open>scrollToIndex\<close> with index \<open>i + 1\<close> and \<open>scrollPrev\<close> with index
  \<open>i - 1\<close>, both animated. The index is passed as it is: the list accepts it when it is
  in \<open>[0, images.length)\<close>, and then nothing else of the state changes; otherwise the
  list's out-of-range error for this index reaches the caller.
\<close>

theorem scroll_commands_request:
  assumes "imageList s = Some l"
  shows "map fst useImperativeHandle = [''scrollNext'', ''scrollPrev'']
    \<and> map_of useImperativeHandle ''scrollNext'' = Some scrollNext
    \<and> map_of useImperativeHandle ''scrollPrev'' = Some scrollPrev
    \<and> scrollNext p s =
        (if 0 \<le> currentImageIndex s + 1 \<and> currentImageIndex s + 1 < int (length (images p))
         then Inr (s\<lparr>imageList := Some (l\<lparr>scrollToIndexCalls :=
           scrollToIndexCalls l @ [\<lparr>index = currentImageIndex s + 1, animated = True\<rparr>]\<rparr>)\<rparr>)
         else Inl (ScrollToIndexOutOfRange (currentImageIndex s + 1)))
    \<and> scrollPrev p s =
        (if 0 \<le> currentImageIndex s - 1 \<and> currentImageIndex s - 1 < int (length (images p))
         then Inr (s\<lparr>imageList := Some (l\<lparr>scrollToIndexCalls :=
           scrollToIndexCalls l @ [\<lparr>index = currentImageIndex s - 1, animated = True\<rparr>]\<rparr>)\<rparr>)
         else Inl (ScrollToIndexOutOfRange (currentImageIndex s - 1)))
    \<and> requestsScrollTo s (scrollNext p s) (currentImageIndex s + 1)
    \<and> requestsScrollTo s (scrollPrev p s) (currentImageIndex s - 1)"
  using assms
  by (simp add: useImperativeHandle_def scrollNext_def scrollPrev_def scrollToIndex_def
      requestsScrollTo_def scrollRequests_def)

theorem scroll_commands_request_witness:
  "imageList exampleState = Some newList
   \<and> currentImageIndex exampleState = 1
   \<and> scrollRequests exampleState = []
   \<and> scrollNext exampleProps exampleState =
       Inr (exampleState\<lparr>imageList := Some (newList\<lparr>scrollToIndexCalls :=
         [\<lparr>index = 2, animated = True\<rparr>]\<rparr>)\<rparr>)
   \<and> scrollPrev exampleProps exampleState =
       Inr (exampleState\<lparr>imageList := Some (newList\<lparr>scrollToIndexCalls :=
         [\<lparr>index = 0, animated = True\<rparr>]\<rparr>)\<rparr>)
   \<and> imageList (exampleState\<lparr>currentImageIndex := 2\<rparr>) = Some newList
   \<and> scrollNext exampleProps (exampleState\<lparr>currentImageIndex := 2\<rparr>) =
       Inl (ScrollToIndexOutOfRange 3)
   \<and> scrollPrev exampleProps (exampleState\<lparr>currentImageIndex := 0\<rparr>) =
       Inl (ScrollToIndexOutOfRange (- 1))"
proof -
  have h: "imageList exampleState = Some newList" by (simp add: exampleState_simp)
  have h2: "imageList (exampleState\<lparr>currentImageIndex := 2\<rparr>) = Some newList"
    by (simp add: exampleState_simp)
  have h0: "imageList (exampleState\<lparr>currentImageIndex := 0\<rparr>) = Some newList"
    by (simp add: exampleState_simp)
  have i: "currentImageIndex exampleState = 1" by (simp add: exampleState_simp)
  have n: "int (length (images exampleProps)) = 3"
    by (simp add: exampleProps_def exampleImages_def)
  have c: "scrollToIndexCalls newList = []" by (simp add: newList_def)
  have r: "scrollRequests exampleState = []"
    by (simp add: exampleState_simp scrollRequests_def newList_def)
  have a: "scrollNext exampleProps exampleState =
       Inr (exampleState\<lparr>imageList := Some (newList\<lparr>scrollToIndexCalls :=
         [\<lparr>index = 2, animated = True\<rparr>]\<rparr>)\<rparr>)"
    using scroll_commands_request [OF h, of exampleProps] by (simp add: i n c)
  have b: "scrollPrev exampleProps exampleState =
       Inr (exampleState\<lparr>imageList := Some (newList\<lparr>scrollToIndexCalls :=
         [\<lparr>index = 0, animated = True\<rparr>]\<rparr>)\<rparr>)"
    using scroll_commands_request [OF h, of exampleProps] by (simp add: i n c)
  have d: "scrollNext exampleProps (exampleState\<lparr>currentImageIndex := 2\<rparr>) =
       Inl (ScrollToIndexOutOfRange 3)"
    using scroll_commands_request [OF h2, of exampleProps] by (simp add: n)
  have e: "scrollPrev exampleProps (exampleState\<lparr>currentImageIndex := 0\<rparr>) =
       Inl (ScrollToIndexOutOfRange (- 1))"
    using scroll_commands_request [OF h0, of exampleProps] by (simp add: n)
  show ?thesis using h h2 i r a b d e by blast
qed

subsection \<open>C3: swiping right\<close>

text \<open>
  C3 says that for every current index \<open>i\<close> a swipe right advances the index by exactly
  1, or keeps it when \<open>i\<close> is the last index. The current index can be outside the
  images: with three images and \<open>imageIndex = 3\<close> it is 3 after the mount, and a scroll
  that settles one page further brings it to 2, which is neither \<open>i + 1\<close> nor \<open>i\<close>.
  With \<open>imageIndex = -3\<close> it is -3 after the mount, and a scroll that settles one
  page further brings it to 0.
\<close>

theorem swipe_right_from_outside:
  "currentImageIndex (fst (mount exampleDefaults outOfRangeProps)) = 3
   \<and> int (length (images outOfRangeProps)) - 1 = 2
   \<and> currentImageIndex
        (fst (step outOfRangeProps (fst (mount exampleDefaults outOfRangeProps))
           (MomentumScrollEnd
              (currentImageIndex (fst (mount exampleDefaults outOfRangeProps)) + 1)))) = 2
   \<and> currentImageIndex (fst (mount exampleDefaults (exampleProps\<lparr>imageIndex := - 3\<rparr>))) = - 3
   \<and> currentImageIndex
        (fst (step (exampleProps\<lparr>imageIndex := - 3\<rparr>)
           (fst (mount exampleDefaults (exampleProps\<lparr>imageIndex := - 3\<rparr>)))
           (MomentumScrollEnd
              (currentImageIndex
                 (fst (mount exampleDefaults (exampleProps\<lparr>imageIndex := - 3\<rparr>))) + 1)))) = 0"
  by (simp add: step_index mount_def useImageIndexChange_initial_def outOfRangeProps_def
      exampleProps_def exampleImages_def)

text \<open>
  C3, amended: from every current index \<open>i\<close> in \<open>[0, images.length)\<close>, a scroll that
  settles one page further moves the current index to \<open>i + 1\<close>, and when \<open>i\<close> is the
  last index, \<open>images.length - 1\<close>, the index stays there.
\<close>

theorem swipe_right_advances:
  assumes "index_in_bounds p s"
  shows "currentImageIndex (fst (step p s (MomentumScrollEnd (currentImageIndex s + 1)))) =
           (if currentImageIndex s = int (length (images p)) - 1
            then currentImageIndex s
            else currentImageIndex s + 1)"
  using assms by (auto simp: index_in_bounds_def step_index)

theorem swipe_right_advances_witness:
  "index_in_bounds exampleProps exampleState
   \<and> currentImageIndex exampleState = 1
   \<and> currentImageIndex (fst (step exampleProps exampleState (MomentumScrollEnd 2))) = 2
   \<and> index_in_bounds exampleProps (exampleState\<lparr>currentImageIndex := 2\<rparr>)
   \<and> currentImageIndex
        (fst (step exampleProps (exampleState\<lparr>currentImageIndex := 2\<rparr>)
           (MomentumScrollEnd 3))) = 2"
proof -
  have a: "index_in_bounds exampleProps exampleState"
    by (simp add: index_in_bounds_def exampleState_simp exampleProps_def exampleImages_def)
  have b: "index_in_bounds exampleProps (exampleState\<lparr>currentImageIndex := 2\<rparr>)"
    by (simp add: index_in_bounds_def exampleState_simp exampleProps_def exampleImages_def)
  have i: "currentImageIndex exampleState = 1" by (simp add: exampleState_simp)
  have n: "int (length (images exampleProps)) = 3"
    by (simp add: exampleProps_def exampleImages_def)
  show ?thesis
    using a b i swipe_right_advances [OF a] swipe_right_advances [OF b] by (simp add: n)
qed

subsection \<open>C4: rendering and the visible flag\<close>

text \<open>
  C4: for all props and every state, the component renders nothing when \<open>visible\<close> is
  false, and when \<open>visible\<close> is true it renders a modal whose \<open>visible\<close> prop is true;
  so a modal is rendered exactly when the flag is true.
\<close>

theorem render_visible:
  "(\<not> visible p \<longrightarrow> render p s = None)
   \<and> (visible p \<longrightarrow> (\<exists>m. render p s = Some m \<and> modalVisible m))
   \<and> (render p s = None) = (\<not> visible p)"
  by (simp add: render_def)

theorem render_visible_witness:
  "visible exampleProps
   \<and> (\<exists>m. render exampleProps exampleState = Some m \<and> modalVisible m)
   \<and> \<not> visible (exampleProps\<lparr>visible := False\<rparr>)
   \<and> render (exampleProps\<lparr>visible := False\<rparr>) hiddenState = None"
proof -
  have v: "visible exampleProps" by (simp add: exampleProps_def)
  have h: "\<not> visible (exampleProps\<lparr>visible := False\<rparr>)" by simp
  show ?thesis
    using v h render_visible [of exampleProps exampleState]
      render_visible [of "exampleProps\<lparr>visible := False\<rparr>" hiddenState]
    by blast
qed

subsection \<open>C5: reporting the index\<close>

text \<open>
  C5: the index effect runs after the mount and after every render in which the current
  index differs from the one before. It calls \<open>onImageIndexChange\<close> with the new current
  index when the callback was passed, and calls nothing when it was not. So the mount and
  every event that changes the index make exactly this one call, and without the callback
  no such call is ever made.
\<close>

theorem index_change_reported:
  "snd (mount h p) =
     (if onImageIndexChange p
      then [OnImageIndexChange (currentImageIndex (fst (mount h p)))] else [])
   \<and> (new \<noteq> old \<longrightarrow>
        useEffect_currentImageIndex p old new =
          (if onImageIndexChange p then [OnImageIndexChange new] else []))
   \<and> (currentImageIndex (fst (step p s e)) \<noteq> currentImageIndex s \<longrightarrow>
        snd (step p s e) =
          (if onImageIndexChange p
           then [OnImageIndexChange (currentImageIndex (fst (step p s e)))] else []))
   \<and> (\<not> onImageIndexChange p \<longrightarrow>
        (\<forall>i. OnImageIndexChange i \<notin> set (snd (mount h p))
           \<and> OnImageIndexChange i \<notin> set (snd (step p s e))))"
proof (intro conjI impI allI)
  show "snd (mount h p) =
     (if onImageIndexChange p
      then [OnImageIndexChange (currentImageIndex (fst (mount h p)))] else [])"
    by (simp add: mount_def onImageIndexChangeEffect_def)
next
  assume "new \<noteq> old"
  then show "useEffect_currentImageIndex p old new =
          (if onImageIndexChange p then [OnImageIndexChange new] else [])"
    by (simp add: useEffect_currentImageIndex_def onImageIndexChangeEffect_def)
next
  assume c: "currentImageIndex (fst (step p s e)) \<noteq> currentImageIndex s"
  then obtain page where e: "e = MomentumScrollEnd page"
    by (cases e) (simp_all add: step_index)
  show "snd (step p s e) =
          (if onImageIndexChange p
           then [OnImageIndexChange (currentImageIndex (fst (step p s e)))] else [])"
    using c unfolding e
    by (simp add: step_def useEffect_currentImageIndex_def onImageIndexChangeEffect_def)
next
  fix i assume n: "\<not> onImageIndexChange p"
  then show "OnImageIndexChange i \<notin> set (snd (mount h p))"
    by (simp add: mount_def onImageIndexChangeEffect_def)
next
  fix i assume n: "\<not> onImageIndexChange p"
  then show "OnImageIndexChange i \<notin> set (snd (step p s e))"
    by (cases e)
      (auto simp: step_def useEffect_currentImageIndex_def onImageIndexChangeEffect_def
        onPressHandler_def onFadeComplete_def split: sum.splits)
qed

theorem index_change_reported_witness:
  "snd (mount exampleDefaults exampleProps) = [OnImageIndexChange 1]
   \<and> currentImageIndex (fst (step exampleProps exampleState (MomentumScrollEnd 2)))
       \<noteq> currentImageIndex exampleState
   \<and> snd (step exampleProps exampleState (MomentumScrollEnd 2)) = [OnImageIndexChange 2]
   \<and> \<not> onImageIndexChange (exampleProps\<lparr>onImageIndexChange := False\<rparr>)
   \<and> snd (step (exampleProps\<lparr>onImageIndexChange := False\<rparr>) exampleState
          (MomentumScrollEnd 2)) = []"
proof -
  have o: "onImageIndexChange exampleProps" by (simp add: exampleProps_def)
  have m: "currentImageIndex (fst (mount exampleDefaults exampleProps)) = 1"
    by (simp add: mount_def useImageIndexChange_initial_def exampleProps_def)
  have c: "currentImageIndex (fst (step exampleProps exampleState (MomentumScrollEnd 2))) = 2"
    by (simp add: step_index exampleProps_def exampleImages_def)
  have c': "currentImageIndex
      (fst (step (exampleProps\<lparr>onImageIndexChange := False\<rparr>) exampleState
         (MomentumScrollEnd 2))) = 2"
    by (simp add: step_index exampleProps_def exampleImages_def)
  have i: "currentImageIndex exampleState = 1" by (simp add: exampleState_simp)
  note t = index_change_reported
    [of exampleDefaults exampleProps 0 0 exampleState "MomentumScrollEnd 2"]
  note u = index_change_reported
    [of exampleDefaults "exampleProps\<lparr>onImageIndexChange := False\<rparr>" 0 0
      exampleState "MomentumScrollEnd 2"]
  have 1: "snd (mount exampleDefaults exampleProps) = [OnImageIndexChange 1]"
    using t o m by simp
  have 2: "snd (step exampleProps exampleState (MomentumScrollEnd 2)) = [OnImageIndexChange 2]"
    using t o c i by simp
  have 3: "snd (step (exampleProps\<lparr>onImageIndexChange := False\<rparr>) exampleState
      (MomentumScrollEnd 2)) = []"
    using u c' i by simp
  show ?thesis using 1 2 3 c i by simp
qed

subsection \<open>C6: the null check of the scroll commands\<close>

text \<open>
  C6: both imperative scroll commands check the list ref first. Whenever the ref is null,
  \<open>scrollNext\<close> and \<open>scrollPrev\<close> return normally (no error), leave the state as it
  was and request no scroll.
\<close>

theorem scroll_commands_null_ref:
  assumes "imageList s = None"
  shows "scrollNext p s = Inr s \<and> scrollPrev p s = Inr s \<and> scrollRequests s = []"
  using assms by (simp add: scrollNext_def scrollPrev_def scrollRequests_def)

theorem scroll_commands_null_ref_witness:
  "imageList hiddenState = None
   \<and> scrollNext (exampleProps\<lparr>visible := False\<rparr>) hiddenState = Inr hiddenState
   \<and> scrollPrev (exampleProps\<lparr>visible := False\<rparr>) hiddenState = Inr hiddenState
   \<and> scrollRequests hiddenState = []"
proof -
  have h: "imageList hiddenState = None" by (simp add: hiddenState_simp)
  show ?thesis using h scroll_commands_null_ref [OF h] by simp
qed

subsection \<open>C7: the animation of header and footer\<close>

text \<open>
  C7: when the \<open>headerAndFooterAnimation\<close> prop is "slide", or is left out (the
  default is "slide"), the styles of header and footer each carry a \<open>transform\<close>; when
  it is "fade" they each carry the bars' \<open>opacity\<close>. Header and footer always carry the
  same property, and the rendered header and footer use these styles.
\<close>

theorem header_footer_animation_selection:
  "(headerAndFooterAnimation p = None \<or> headerAndFooterAnimation p = Some Slide \<longrightarrow>
      headerAnimation p = [(''transform'', headerTransform)]
      \<and> footerAnimation p = [(''transform'', footerTransform)])
   \<and> (headerAndFooterAnimation p = Some Fade \<longrightarrow>
      headerAnimation p = [(''opacity'', barsOpacity)]
      \<and> footerAnimation p = [(''opacity'', barsOpacity)])
   \<and> map fst (headerAnimation p) = map fst (footerAnimation p)
   \<and> (\<forall>m. render p s = Some m \<longrightarrow>
        headerStyle m = headerAnimation p
        \<and> (\<forall>st c i. footer m = Some (st, c, i) \<longrightarrow> st = footerAnimation p))"
  by (auto simp: headerAnimation_def footerAnimation_def
      headerAndFooterAnimation_or_default_def DEFAULT_HEADER_FOOTER_ANIMATION_def render_def
      split: option.splits if_splits)

theorem header_footer_animation_selection_witness:
  "headerAndFooterAnimation exampleProps = None
   \<and> headerAnimation exampleProps = [(''transform'', headerTransform)]
   \<and> footerAnimation exampleProps = [(''transform'', footerTransform)]
   \<and> headerAndFooterAnimation (exampleProps\<lparr>headerAndFooterAnimation := Some Fade\<rparr>)
       = Some Fade
   \<and> headerAnimation (exampleProps\<lparr>headerAndFooterAnimation := Some Fade\<rparr>)
       = [(''opacity'', barsOpacity)]
   \<and> footerAnimation (exampleProps\<lparr>headerAndFooterAnimation := Some Fade\<rparr>)
       = [(''opacity'', barsOpacity)]"
proof -
  have a: "headerAndFooterAnimation exampleProps = None" by (simp add: exampleProps_def)
  have b: "headerAndFooterAnimation (exampleProps\<lparr>headerAndFooterAnimation := Some Fade\<rparr>)
      = Some Fade"
    by simp
  show ?thesis
    using a b header_footer_animation_selection [of exampleProps exampleState]
      header_footer_animation_selection
        [of "exampleProps\<lparr>headerAndFooterAnimation := Some Fade\<rparr>" exampleState]
    by blast
qed

subsection \<open>C8: the close action waits for the fade\<close>

text \<open>
  C8: a close request calls nothing by itself; the application's \<open>onRequestClose\<close> is
  called when the fade that the request started completes. In every sequence of events
  \<open>onRequestClose\<close> is called at most as often as a fade has completed, so never before
  the first fade has completed.
\<close>

theorem close_deferred_until_fade:
  "snd (step p s RequestClose) = []
   \<and> snd (step p (fst (step p s RequestClose)) FadeComplete) = [OnRequestClose]
   \<and> closeCalls (snd (run p s es)) \<le> fadesCompleted es
   \<and> (FadeComplete \<notin> set es \<longrightarrow> OnRequestClose \<notin> set (snd (run p s es)))"
proof (intro conjI impI)
  show "snd (step p s RequestClose) = []"
    by (simp add: step_def onRequestCloseEnhanced_def useEffect_currentImageIndex_def)
  show "snd (step p (fst (step p s RequestClose)) FadeComplete) = [OnRequestClose]"
    by (simp add: step_def onRequestCloseEnhanced_def onFadeComplete_def
        useEffect_currentImageIndex_def)
  show le: "closeCalls (snd (run p s es)) \<le> fadesCompleted es" by (rule closeCalls_run)
  assume "FadeComplete \<notin> set es"
  then have "fadesCompleted es = 0"
    by (auto simp: fadesCompleted_def filter_empty_conv)
  with le have "closeCalls (snd (run p s es)) = 0" by simp
  then show "OnRequestClose \<notin> set (snd (run p s es))"
    by (auto simp: closeCalls_def filter_empty_conv)
qed

theorem close_deferred_until_fade_witness:
  "FadeComplete \<notin> set [RequestClose, Press (ImageRequireSource 7), RequestClose]
   \<and> OnRequestClose \<notin> set (snd (run exampleProps exampleState
        [RequestClose, Press (ImageRequireSource 7), RequestClose]))
   \<and> snd (run exampleProps exampleState
        [RequestClose, Press (ImageRequireSource 7), RequestClose])
       = [OnPress (ImageRequireSource 7)]
   \<and> snd (step exampleProps (fst (step exampleProps exampleState RequestClose)) FadeComplete)
       = [OnRequestClose]"
proof -
  have a: "FadeComplete \<notin> set [RequestClose, Press (ImageRequireSource 7), RequestClose]"
    by simp
  note t = close_deferred_until_fade [of exampleProps exampleState
      "[RequestClose, Press (ImageRequireSource 7), RequestClose]"]
  have b: "OnRequestClose \<notin> set (snd (run exampleProps exampleState
        [RequestClose, Press (ImageRequireSource 7), RequestClose]))"
    using a t by blast
  have c: "snd (step exampleProps (fst (step exampleProps exampleState RequestClose))
      FadeComplete) = [OnRequestClose]"
    using t by blast
  have d: "snd (run exampleProps exampleState
        [RequestClose, Press (ImageRequireSource 7), RequestClose])
       = [OnPress (ImageRequireSource 7)]"
    by (simp add: step_def onRequestCloseEnhanced_def onPressHandler_def toggleBarsVisible_def
        useEffect_currentImageIndex_def exampleProps_def)
  show ?thesis using a b c d by blast
qed

subsection \<open>C9: a new \<open>imageIndex\<close> prop remounts the viewer\<close>

text \<open>
  C9: the exported component keys the viewer by the \<open>imageIndex\<close> prop. Whenever new
  props come with another \<open>imageIndex\<close>, the viewer is replaced by a newly mounted one:
  whatever its state was, the new state is the one of a mount with the new props, with
  the current index at the new \<open>imageIndex\<close> and the close fade and the bar visibility
  at their initial values.
\<close>

theorem imageIndex_change_remounts:
  assumes "imageIndex p' \<noteq> imageIndex p"
  shows "EnhancedImageViewing h p p' s = mount h p'
    \<and> currentImageIndex (fst (EnhancedImageViewing h p p' s)) = imageIndex p'
    \<and> opacity (fst (EnhancedImageViewing h p p' s)) = initialOpacity h
    \<and> closing (fst (EnhancedImageViewing h p p' s)) = False
    \<and> barsVisible (fst (EnhancedImageViewing h p p' s)) = initialBarsVisible h
    \<and> imageList (fst (EnhancedImageViewing h p p' s)) =
        (if visible p' then Some newList else None)"
  using assms by (simp add: EnhancedImageViewing_def mount_def useImageIndexChange_initial_def)

theorem imageIndex_change_remounts_witness:
  "imageIndex (exampleProps\<lparr>imageIndex := 0\<rparr>) \<noteq> imageIndex exampleProps
   \<and> fst (EnhancedImageViewing exampleDefaults exampleProps
        (exampleProps\<lparr>imageIndex := 0\<rparr>) usedState)
      = \<lparr>imageList = Some newList, opacity = 1, closing = False, currentImageIndex = 0,
         barsVisible = True\<rparr>
   \<and> currentImageIndex usedState = 2 \<and> opacity usedState = 0 \<and> \<not> barsVisible usedState"
proof -
  have a: "imageIndex (exampleProps\<lparr>imageIndex := 0\<rparr>) \<noteq> imageIndex exampleProps"
    by (simp add: exampleProps_def)
  have m: "fst (mount exampleDefaults (exampleProps\<lparr>imageIndex := 0\<rparr>)) =
     \<lparr>imageList = Some newList, opacity = 1, closing = False, currentImageIndex = 0,
         barsVisible = True\<rparr>"
    by (simp add: mount_def useImageIndexChange_initial_def exampleProps_def
        exampleDefaults_def)
  have e: "EnhancedImageViewing exampleDefaults exampleProps
      (exampleProps\<lparr>imageIndex := 0\<rparr>) usedState
      = mount exampleDefaults (exampleProps\<lparr>imageIndex := 0\<rparr>)"
    using imageIndex_change_remounts [OF a] by blast
  show ?thesis using a m e by (simp add: usedState_simp)
qed

subsection \<open>C10: zooming, scrolling and the bars\<close>

text \<open>
  C10: an image item lives in the mounted list, so the list ref is set when it reports a
  zoom change. The report with flag \<open>isScaled\<close> sets the list's \<open>scrollEnabled\<close> to the
  negation of the flag and the bar visibility to the negation of the flag: scaled disables
  scrolling and hides the bars, unscaled enables scrolling and shows the bars. No other
  event touches \<open>scrollEnabled\<close>, so after every sequence of events it is the negation
  of the scaled flag reported last.
\<close>

theorem zoom_sets_scroll_and_bars:
  assumes "imageList s = Some l"
  shows "fst (step p s (Zoom isScaled)) =
           s\<lparr>imageList := Some (l\<lparr>scrollEnabled := \<not> isScaled\<rparr>),
             barsVisible := \<not> isScaled\<rparr>
    \<and> listScrollEnabled (fst (step p s (Zoom isScaled))) = Some (\<not> isScaled)
    \<and> barsVisible (fst (step p s (Zoom isScaled))) = (\<not> isScaled)
    \<and> listScrollEnabled (fst (run p s es)) =
        Some (\<not> scaledAfter (\<not> scrollEnabled l) es)"
proof -
  have a: "fst (step p s (Zoom isScaled)) =
           s\<lparr>imageList := Some (l\<lparr>scrollEnabled := \<not> isScaled\<rparr>),
             barsVisible := \<not> isScaled\<rparr>"
    using assms by (simp add: step_def onZoom_def setBarsVisibility_def setNativeProps_def)
  have b: "listScrollEnabled s = Some (scrollEnabled l)"
    using assms by (simp add: listScrollEnabled_def)
  have c: "listScrollEnabled (fst (run p s es)) =
      Some (\<not> scaledAfter (\<not> scrollEnabled l) es)"
    using b by (rule run_scrollEnabled)
  show ?thesis using c by (simp add: a listScrollEnabled_def)
qed

theorem zoom_sets_scroll_and_bars_witness:
  "imageList exampleState = Some newList
   \<and> fst (step exampleProps exampleState (Zoom True)) =
       exampleState\<lparr>imageList := Some (newList\<lparr>scrollEnabled := False\<rparr>),
         barsVisible := False\<rparr>
   \<and> listScrollEnabled (fst (run exampleProps exampleState
        [Zoom True, Press (ImageRequireSource 7), ScrollNext])) = Some False
   \<and> listScrollEnabled (fst (run exampleProps exampleState
        [Zoom True, Press (ImageRequireSource 7), Zoom False])) = Some True"
proof -
  have h: "imageList exampleState = Some newList" by (simp add: exampleState_simp)
  note t = zoom_sets_scroll_and_bars [OF h, of exampleProps True]
  have a: "fst (step exampleProps exampleState (Zoom True)) =
       exampleState\<lparr>imageList := Some (newList\<lparr>scrollEnabled := False\<rparr>),
         barsVisible := False\<rparr>"
    using t by simp
  have b: "listScrollEnabled (fst (run exampleProps exampleState
        [Zoom True, Press (ImageRequireSource 7), ScrollNext])) = Some False"
    using t [of "[Zoom True, Press (ImageRequireSource 7), ScrollNext]"]
    by (simp add: newList_def)
  have c: "listScrollEnabled (fst (run exampleProps exampleState
        [Zoom True, Press (ImageRequireSource 7), Zoom False])) = Some True"
    using t [of "[Zoom True, Press (ImageRequireSource 7), Zoom False]"]
    by (simp add: newList_def)
  show ?thesis using h a b c by blast
qed

end
